theory Spec2Isabelle
  imports Complex_Main
begin

section \<open>Exceptions, geometries and the geometry engine\<close>

text \<open>
  The Python exceptions that the modelled functions raise or let through. A function that
  can raise returns \<open>error + 'a\<close>, with \<open>Inl\<close> for the exception.
\<close>

datatype error =
    TypeError
  | KeyError
  | TopologicalError
  | RuntimeError
  | AssertionError
  | OSError
  | OtherError string

text \<open>
  The three multipart classes of shapely that are the values of the table
  \<open>multipart_geoms\<close> in \<open>clean_geometry_type\<close>.
\<close>

datatype multipart_class = MultiPointC | MultiLineStringC | MultiPolygonC

text \<open>The geometry classes of shapely.\<close>

datatype geom_class =
    PointK
  | LineStringK
  | LinearRingK
  | PolygonK
  | MultipartK multipart_class
  | GeometryCollectionK

text \<open>
  A shapely geometry: an instance of a geometry class around a GEOS geometry. The
  coordinates \<open>'c\<close> are opaque: only the geometry engine looks at them. A multipart geometry
  is an instance of one of the three multipart classes and holds its parts; a collection
  holds members of any type. \<open>Bare k\<close> is an instance of the class \<open>k\<close> that was given no
  GEOS geometry of its own, as the constructors of shapely 1.x leave it when they are
  called on nothing (\<open>Point()\<close>, \<open>Polygon()\<close>, \<open>MultiPolygon([])\<close>): it shares the empty
  geometry of the base class, which is an empty collection.
\<close>

datatype 'c geometry =
    Point 'c
  | LineString 'c
  | LinearRing 'c
  | Polygon 'c
  | Multipart multipart_class "'c geometry list"
  | GeometryCollection "'c geometry list"
  | Bare geom_class

fun class_name :: "multipart_class \<Rightarrow> string" where
  "class_name MultiPointC = ''MultiPoint''"
| "class_name MultiLineStringC = ''MultiLineString''"
| "class_name MultiPolygonC = ''MultiPolygon''"

text \<open>
  The attribute \<open>geometry.geom_type\<close>: the type name of the GEOS geometry, not of the
  Python class. A bare instance of any class has the type name \<open>GeometryCollection\<close>.
\<close>

fun geom_type :: "'c geometry \<Rightarrow> string" where
  "geom_type (Point _) = ''Point''"
| "geom_type (LineString _) = ''LineString''"
| "geom_type (LinearRing _) = ''LinearRing''"
| "geom_type (Polygon _) = ''Polygon''"
| "geom_type (Multipart c _) = class_name c"
| "geom_type (GeometryCollection _) = ''GeometryCollection''"
| "geom_type (Bare _) = ''GeometryCollection''"

text \<open>
  \<open>isinstance(geometry, multipart_geom)\<close> for a multipart class: this one looks at the
  Python class.
\<close>

fun isinstance :: "'c geometry \<Rightarrow> multipart_class \<Rightarrow> bool" where
  "isinstance (Multipart c _) d = (c = d)"
| "isinstance (Bare (MultipartK c)) d = (c = d)"
| "isinstance _ d = False"

text \<open>
  The classes whose instances can be iterated (\<open>for g in geometry\<close>): the multipart classes
  and the collection. Iterating an instance of another class raises \<open>TypeError\<close>.
\<close>

fun iterable :: "geom_class \<Rightarrow> bool" where
  "iterable (MultipartK _) = True"
| "iterable GeometryCollectionK = True"
| "iterable _ = False"

text \<open>
  What the call of a multipart class leaves in the new instance: a GEOS geometry with
  these parts, or nothing, and then the instance is bare.
\<close>

datatype 'c constructed = WithParts "'c geometry list" | Unset

fun multipart_instance :: "multipart_class \<Rightarrow> 'c constructed \<Rightarrow> 'c geometry" where
  "multipart_instance cls (WithParts parts) = Multipart cls parts"
| "multipart_instance cls Unset = Bare (MultipartK cls)"

type_synonym bounds = "real \<times> real \<times> real \<times> real"

text \<open>
  A rasterio CRS, as far as the code looks at it: the property \<open>is_epsg_code\<close>, the entry
  \<open>get("init")\<close> and the rest of its definition. Two CRS are equal when all of it is equal.
\<close>

record crs =
  is_epsg_code :: bool
  get_init :: "string option"
  proj_params :: string

text \<open>
  The operations of shapely and fiona that the code calls. They are parameters of the model:
  \<open>truthy\<close> is the truth value of a geometry (\<open>if geom:\<close>), \<open>buffer0\<close> is \<open>buffer(0)\<close>,
  \<open>transform_geom\<close> is fiona's transformation followed by \<open>shape\<close>, and
  \<open>multipart_ctor cls xs\<close> gives what calling the multipart class \<open>cls\<close> on the sequence
  \<open>xs\<close> leaves in the new instance, or the exception the call raises. The sequence is
  passed as the code passes it, entries \<open>None\<close> included.
\<close>

record 'c engine =
  is_valid :: "'c geometry \<Rightarrow> bool"
  is_empty :: "'c geometry \<Rightarrow> bool"
  truthy :: "'c geometry \<Rightarrow> bool"
  buffer0 :: "'c geometry \<Rightarrow> 'c geometry"
  intersection :: "'c geometry \<Rightarrow> 'c geometry \<Rightarrow> error + 'c geometry"
  geom_within :: "'c geometry \<Rightarrow> 'c geometry \<Rightarrow> bool"
  box :: "bounds \<Rightarrow> 'c geometry"
  geom_bounds :: "'c geometry \<Rightarrow> bounds"
  transform_geom :: "crs \<Rightarrow> crs \<Rightarrow> 'c geometry \<Rightarrow> error + 'c geometry"
  multipart_ctor :: "multipart_class \<Rightarrow> 'c geometry option list \<Rightarrow> error + 'c constructed"

section \<open>Geometry type normalisation: \<open>clean_geometry_type\<close>\<close>

definition multipart_geoms :: "string \<rightharpoonup> multipart_class" where
  "multipart_geoms = map_of
     [(''Point'', MultiPointC),
      (''LineString'', MultiLineStringC),
      (''Polygon'', MultiPolygonC),
      (''MultiPoint'', MultiPointC),
      (''MultiLineString'', MultiLineStringC),
      (''MultiPolygon'', MultiPolygonC)]"

text \<open>
  A list comprehension whose elements may raise: the first exception ends it.
\<close>

fun sequence_results :: "(error + 'a) list \<Rightarrow> error + 'a list" where
  "sequence_results [] = Inr []"
| "sequence_results (Inl e # _) = Inl e"
| "sequence_results (Inr x # rs) =
     (case sequence_results rs of Inl e \<Rightarrow> Inl e | Inr xs \<Rightarrow> Inr (x # xs))"

text \<open>
  \<open>clean_geometry_type(geometry, target_type, allow_multipart)\<close>. The result \<open>Inr None\<close> is
  Python's \<open>None\<close>. In the collection branch the comprehension has no filter: the result of
  every member, \<open>None\<close> too, goes to the multipart class. The geometries with the type name
  \<open>GeometryCollection\<close> are the collections and the bare instances: the \<open>for\<close> runs over
  the members of a collection, over nothing for a bare instance of an iterable class, and
  raises \<open>TypeError\<close> for a bare instance of another class, such as \<open>Polygon()\<close>. The last
  lookup \<open>multipart_geoms[geometry.geom_type]\<close> raises \<open>KeyError\<close> for a type that is not a
  key of the table.
\<close>

fun clean_geometry_type ::
  "'c engine \<Rightarrow> 'c geometry \<Rightarrow> string \<Rightarrow> bool \<Rightarrow> error + 'c geometry option" where
  "clean_geometry_type E geometry target_type allow_multipart =
     (case multipart_geoms target_type of
        None \<Rightarrow> Inl TypeError
      | Some multipart_geom \<Rightarrow>
          if geom_type geometry = target_type then Inr (Some geometry)
          else if geom_type geometry = ''GeometryCollection'' then
            (case (case geometry of
                     GeometryCollection gs \<Rightarrow>
                       sequence_results
                         (map (\<lambda>g. clean_geometry_type E g target_type allow_multipart) gs)
                   | Bare k \<Rightarrow> if iterable k then Inr [] else Inl TypeError
                   | _ \<Rightarrow> Inl TypeError) of
               Inl e \<Rightarrow> Inl e
             | Inr cleaned \<Rightarrow>
                 (case multipart_ctor E multipart_geom cleaned of
                    Inl e \<Rightarrow> Inl e
                  | Inr built \<Rightarrow> Inr (Some (multipart_instance multipart_geom built))))
          else if allow_multipart \<and> isinstance geometry multipart_geom then Inr (Some geometry)
          else (case multipart_geoms (geom_type geometry) of
                  None \<Rightarrow> Inl KeyError
                | Some m \<Rightarrow> if m = multipart_geom then Inr (Some geometry) else Inr None))"

declare clean_geometry_type.simps [simp del]

text \<open>
  The geometries on which the function meets no type name outside the table and iterates
  nothing that cannot be iterated: no linear ring and no bare instance of a single-part
  class, neither the geometry itself nor a member of a collection.
\<close>

fun table_typed :: "'c geometry \<Rightarrow> bool" where
  "table_typed (LinearRing _) = False"
| "table_typed (GeometryCollection gs) = (\<forall>g \<in> set gs. table_typed g)"
| "table_typed (Bare k) = iterable k"
| "table_typed _ = True"

text \<open>
  The collection branch as the specification words it: the members that yield no match are
  discarded and the multipart value is assembled from the survivors only.
\<close>

definition survivors :: "'a option list \<Rightarrow> 'a list" where
  "survivors rs = concat (map (\<lambda>r. case r of None \<Rightarrow> [] | Some g \<Rightarrow> [g]) rs)"

definition normalize_collection_spec ::
  "'c engine \<Rightarrow> 'c geometry list \<Rightarrow> string \<Rightarrow> bool \<Rightarrow> error + 'c geometry option" where
  "normalize_collection_spec E gs target_type allow_multipart =
     (case multipart_geoms target_type of
        None \<Rightarrow> Inl TypeError
      | Some multipart_geom \<Rightarrow>
          (case sequence_results
                  (map (\<lambda>g. clean_geometry_type E g target_type allow_multipart) gs) of
             Inl e \<Rightarrow> Inl e
           | Inr cleaned \<Rightarrow>
               (case multipart_ctor E multipart_geom (map Some (survivors cleaned)) of
                  Inl e \<Rightarrow> Inl e
                | Inr built \<Rightarrow> Inr (Some (multipart_instance multipart_geom built)))))"

section \<open>Reprojection: \<open>_reproject_geom\<close> and \<open>reproject_geometry\<close>\<close>

definition CRS_BOUNDS :: "string \<rightharpoonup> bounds" where
  "CRS_BOUNDS = map_of
     [(''epsg:4326'', (-180, -90, 180, 90)),
      (''epsg:3857'', (-180, -85.0511, 180, 85.0511)),
      (''epsg:3035'', (-10.6700, 34.5000, 31.5500, 71.0500))]"

text \<open>\<open>CRS().from_epsg(4326)\<close>.\<close>

definition wgs84_crs :: crs where
  "wgs84_crs = \<lparr>is_epsg_code = True, get_init = Some ''epsg:4326'', proj_params = []\<rparr>"

text \<open>
  \<open>_reproject_geom\<close>. The condition of the \<open>raise\<close> is written as Python parses
  \<open>validity_check and not out_geom.is_valid or out_geom.is_empty\<close>: \<open>and\<close> binds tighter
  than \<open>or\<close>.
\<close>

definition reproject_geom ::
  "'c engine \<Rightarrow> 'c geometry \<Rightarrow> crs \<Rightarrow> crs \<Rightarrow> bool \<Rightarrow> error + 'c geometry" where
  "reproject_geom E geometry src_crs dst_crs validity_check =
     (if is_empty E geometry \<or> src_crs = dst_crs then Inr (buffer0 E geometry)
      else
        (case transform_geom E src_crs dst_crs geometry of
           Inl e \<Rightarrow> Inl e
         | Inr transformed \<Rightarrow>
             (let out_geom = buffer0 E transformed in
              if (validity_check \<and> \<not> is_valid E out_geom) \<or> is_empty E out_geom
              then Inl TopologicalError
              else Inr out_geom)))"

text \<open>
  \<open>reproject_geometry\<close>, on CRS objects (\<open>_validated_crs\<close> returns a CRS object as it is,
  and the callers in this module pass CRS objects). The last branch calls
  \<open>_reproject_geom\<close> without the flag, so its default \<open>True\<close> applies.
\<close>

definition reproject_geometry ::
  "'c engine \<Rightarrow> 'c geometry \<Rightarrow> crs \<Rightarrow> crs \<Rightarrow> bool \<Rightarrow> bool \<Rightarrow> error + 'c geometry" where
  "reproject_geometry E geometry src_crs dst_crs error_on_clip validity_check =
     (if src_crs = dst_crs then Inr (buffer0 E geometry)
      else if is_epsg_code dst_crs
              \<and> (case get_init dst_crs of None \<Rightarrow> False | Some k \<Rightarrow> CRS_BOUNDS k \<noteq> None)
              \<and> get_init dst_crs \<noteq> Some ''epsg:4326''
      then
        (case Option.bind (get_init dst_crs) CRS_BOUNDS of
           None \<Rightarrow> Inl KeyError
         | Some crs_bounds \<Rightarrow>
             (let crs_bbox = box E crs_bounds in
              case reproject_geom E geometry src_crs wgs84_crs validity_check of
                Inl e \<Rightarrow> Inl e
              | Inr geometry_4326 \<Rightarrow>
                  if error_on_clip \<and> \<not> geom_within E geometry_4326 crs_bbox
                  then Inl RuntimeError
                  else
                    (case intersection E crs_bbox geometry_4326 of
                       Inl e \<Rightarrow> Inl e
                     | Inr clipped \<Rightarrow>
                         reproject_geom E clipped wgs84_crs dst_crs validity_check)))
      else reproject_geom E geometry src_crs dst_crs True)"

section \<open>Features, feature streams and the file system\<close>

record ('c, 'p) feature =
  feat_properties :: 'p
  feat_geometry :: "'c geometry"

text \<open>
  A generator, drained: the items it yielded, the warnings it recorded, and the exception
  that ended it, if one did.
\<close>

record 'f stream =
  yielded :: "'f list"
  warned :: "string list"
  raised :: "error option"

definition empty_stream :: "'f stream" where
  "empty_stream = \<lparr>yielded = [], warned = [], raised = None\<rparr>"

definition failed_stream :: "error \<Rightarrow> 'f stream" where
  "failed_stream e = \<lparr>yielded = [], warned = [], raised = Some e\<rparr>"

text \<open>
  A \<open>for\<close> loop whose body yields or appends at most one item, may warn, and may raise:
  an exception of the body ends the loop and keeps what came before it.
\<close>

fun for_each :: "('a \<Rightarrow> error + ('b option \<times> string list)) \<Rightarrow> 'a list \<Rightarrow> 'b stream" where
  "for_each body [] = empty_stream"
| "for_each body (x # xs) =
     (case body x of
        Inl e \<Rightarrow> failed_stream e
      | Inr (out, ws) \<Rightarrow>
          (let s = for_each body xs in
           \<lparr>yielded = (case out of None \<Rightarrow> [] | Some y \<Rightarrow> [y]) @ yielded s,
            warned = ws @ warned s,
            raised = raised s\<rparr>))"

text \<open>\<open>itertools.chain.from_iterable\<close> over generators: an exception ends the chain.\<close>

fun chain_from_iterable :: "'f stream list \<Rightarrow> 'f stream" where
  "chain_from_iterable [] = empty_stream"
| "chain_from_iterable (s # ss) =
     (case raised s of
        Some e \<Rightarrow> s
      | None \<Rightarrow>
          (let r = chain_from_iterable ss in
           \<lparr>yielded = yielded s @ yielded r,
            warned = warned s @ warned r,
            raised = raised r\<rparr>))"

text \<open>
  The files of the storage, by path. \<open>os.remove\<close> deletes a file that is there and raises
  \<open>OSError\<close> for a path with no file.
\<close>

type_synonym 'd fs = "string \<rightharpoonup> 'd"

definition os_remove :: "string \<Rightarrow> 'd fs \<Rightarrow> error + 'd fs" where
  "os_remove path files =
     (case files path of None \<Rightarrow> Inl OSError | Some _ \<Rightarrow> Inr (files(path := None)))"

definition path_exists :: "'d fs \<Rightarrow> string \<Rightarrow> bool" where
  "path_exists files path = (files path \<noteq> None)"

section \<open>Reading a window of a vector dataset\<close>

text \<open>A dataset opened by \<open>fiona.open\<close>: its CRS and its bounding-box filter.\<close>

record ('c, 'p) dataset =
  vector_crs :: crs
  vector_filter :: "bounds \<Rightarrow> ('c, 'p) feature list"

text \<open>
  The body of the loop of \<open>_get_reprojected_features\<close> for one feature. When
  \<open>reproject_geometry\<close> raises \<open>TopologicalError\<close>, the handler warns and control goes on
  to the \<open>yield\<close> with \<open>geom\<close> still the clipped geometry.
\<close>

definition get_reprojected_feature ::
  "'c engine \<Rightarrow> 'c geometry \<Rightarrow> crs \<Rightarrow> crs \<Rightarrow> bool \<Rightarrow> ('c, 'p) feature
     \<Rightarrow> error + (('c, 'p) feature option \<times> string list)" where
  "get_reprojected_feature E dst_bbox src_crs dst_crs validity_check feature =
     (if \<not> is_valid E (feat_geometry feature)
         \<and> \<not> is_valid E (buffer0 E (feat_geometry feature))
      then Inr (None, [''feature omitted: broken geometry''])
      else
        (let feature_geom =
               (if is_valid E (feat_geometry feature) then feat_geometry feature
                else buffer0 E (feat_geometry feature))
         in
         case intersection E feature_geom dst_bbox of
           Inl e \<Rightarrow> Inl e
         | Inr clipped \<Rightarrow>
             (case clean_geometry_type E clipped (geom_type feature_geom) True of
                Inl e \<Rightarrow> Inl e
              | Inr None \<Rightarrow>
                  Inr (None, [''feature omitted: geometry type changed after reprojection''])
              | Inr (Some geom) \<Rightarrow>
                  if truthy E geom then
                    (if src_crs = dst_crs \<and> validity_check then
                       (if is_valid E geom
                        then Inr (Some \<lparr>feat_properties = feat_properties feature,
                                        feat_geometry = geom\<rparr>, [])
                        else Inl AssertionError)
                     else
                       (case reproject_geometry E geom src_crs dst_crs False validity_check of
                          Inl TopologicalError \<Rightarrow>
                            Inr (Some \<lparr>feat_properties = feat_properties feature,
                                       feat_geometry = geom\<rparr>,
                                 [''feature omitted: reprojection failed''])
                        | Inl e \<Rightarrow> Inl e
                        | Inr reprojected \<Rightarrow>
                            Inr (Some \<lparr>feat_properties = feat_properties feature,
                                       feat_geometry = reprojected\<rparr>, [])))
                  else
                    Inr (None,
                         [''feature omitted: geometry type changed after reprojection'']))))"

text \<open>\<open>_get_reprojected_features\<close>; \<open>fiona_open\<close> is \<open>fiona.open(input_file, 'r')\<close>.\<close>

definition get_reprojected_features ::
  "'c engine \<Rightarrow> (string \<Rightarrow> error + ('c, 'p) dataset) \<Rightarrow> string \<Rightarrow> bounds \<Rightarrow> crs \<Rightarrow> bool
     \<Rightarrow> ('c, 'p) feature stream" where
  "get_reprojected_features E fiona_open input_file dst_bounds dst_crs validity_check =
     (case fiona_open input_file of
        Inl e \<Rightarrow> failed_stream e
      | Inr vector \<Rightarrow>
          (case (if vector_crs vector = dst_crs then Inr (box E dst_bounds)
                 else reproject_geometry E (box E dst_bounds) dst_crs (vector_crs vector)
                        False True) of
             Inl e \<Rightarrow> failed_stream e
           | Inr dst_bbox \<Rightarrow>
               for_each
                 (get_reprojected_feature E dst_bbox (vector_crs vector) dst_crs validity_check)
                 (vector_filter vector (geom_bounds E dst_bbox))))"

text \<open>The global extent of a tile pyramid, and a buffered tile as \<open>read_vector_window\<close>
  and \<open>write_vector_window\<close> use it.\<close>

record pyramid =
  p_left :: real
  p_bottom :: real
  p_right :: real
  p_top :: real

record 'c tile =
  tile_bounds :: bounds
  tile_bbox :: "'c geometry"
  tile_pyramid :: pyramid
  pixelbuffer :: int
  tile_crs :: crs

definition is_on_edge :: "'c tile \<Rightarrow> bool" where
  "is_on_edge tile =
     (case tile_bounds tile of
        (tile_left, tile_bottom, tile_right, tile_top) \<Rightarrow>
          (let touches_left = tile_left \<le> p_left (tile_pyramid tile);
               touches_bottom = tile_bottom \<le> p_bottom (tile_pyramid tile);
               touches_right = tile_right \<ge> p_right (tile_pyramid tile);
               touches_top = tile_top \<ge> p_top (tile_pyramid tile)
           in touches_left \<or> touches_bottom \<or> touches_right \<or> touches_top))"

text \<open>
  \<open>read_vector_window\<close>; \<open>clip_geometry_to_srs_bounds\<close> is the function of tilematrix,
  called with \<open>multipart=True\<close>, which returns a list of boxes.
\<close>

definition read_vector_window ::
  "'c engine \<Rightarrow> (string \<Rightarrow> error + ('c, 'p) dataset)
     \<Rightarrow> ('c geometry \<Rightarrow> pyramid \<Rightarrow> 'c geometry list)
     \<Rightarrow> string \<Rightarrow> 'c tile \<Rightarrow> bool \<Rightarrow> ('c, 'p) feature stream" where
  "read_vector_window E fiona_open clip_geometry_to_srs_bounds input_file tile validity_check =
     (if pixelbuffer tile \<noteq> 0 \<and> is_on_edge tile then
        (let tile_boxes = clip_geometry_to_srs_bounds (tile_bbox tile) (tile_pyramid tile) in
         chain_from_iterable
           (map (\<lambda>bbox. get_reprojected_features E fiona_open input_file (geom_bounds E bbox)
                          (tile_crs tile) validity_check)
                tile_boxes))
      else
        get_reprojected_features E fiona_open input_file (tile_bounds tile) (tile_crs tile)
          validity_check)"

section \<open>Writing a window: \<open>write_vector_window\<close>\<close>

record schema =
  schema_geometry :: string
  schema_properties :: "(string \<times> string) list"

text \<open>What a write leaves behind: the files, the warnings, and the exception it raised.\<close>

record 'd outcome =
  left_files :: "'d fs"
  warnings :: "string list"
  failure :: "error option"

text \<open>The body of the loop of \<open>write_vector_window\<close> for one feature.\<close>

definition clip_feature ::
  "'c engine \<Rightarrow> schema \<Rightarrow> 'c tile \<Rightarrow> ('c, 'p) feature
     \<Rightarrow> error + (('c, 'p) feature option \<times> string list)" where
  "clip_feature E out_schema out_tile feature =
     (case intersection E (feat_geometry feature) (tile_bbox out_tile) of
        Inl e \<Rightarrow> Inl e
      | Inr clipped \<Rightarrow>
          (let target_type = schema_geometry out_schema in
           case (if geom_type clipped \<noteq> target_type
                 then clean_geometry_type E clipped target_type True
                 else Inr (Some clipped)) of
             Inl e \<Rightarrow> Inr (None, [''failed geometry cleaning during writing''])
           | Inr None \<Rightarrow> Inr (None, [])
           | Inr (Some out_geom) \<Rightarrow>
               if truthy E out_geom
               then Inr (Some \<lparr>feat_properties = feat_properties feature,
                               feat_geometry = out_geom\<rparr>, [])
               else Inr (None, [])))"

text \<open>
  \<open>write_vector_window\<close>. \<open>os.remove\<close> raises nothing but \<open>OSError\<close>, which the
  handler drops. \<open>fiona_write\<close> is the block that opens \<open>out_path\<close> for writing and
  writes the features: it returns the files it leaves and the exception it raised.
\<close>

definition write_vector_window ::
  "'c engine \<Rightarrow> (string \<Rightarrow> schema \<Rightarrow> crs \<Rightarrow> ('c, 'p) feature list \<Rightarrow> 'd fs \<Rightarrow> 'd fs \<times> error option)
     \<Rightarrow> ('c, 'p) feature list \<Rightarrow> schema \<Rightarrow> 'c tile \<Rightarrow> string \<Rightarrow> 'd fs \<Rightarrow> 'd outcome" where
  "write_vector_window E fiona_write in_data out_schema out_tile out_path files0 =
     (let files1 = (case os_remove out_path files0 of Inl e \<Rightarrow> files0
                    | Inr removed \<Rightarrow> removed) in
      if in_data = [] then \<lparr>left_files = files1, warnings = [], failure = None\<rparr>
      else
        (let s = for_each (clip_feature E out_schema out_tile) in_data in
         case raised s of
           Some e \<Rightarrow> \<lparr>left_files = files1, warnings = warned s, failure = Some e\<rparr>
         | None \<Rightarrow>
             if yielded s \<noteq> [] then
               (case fiona_write out_path out_schema (tile_crs out_tile) (yielded s) files1 of
                  (files2, err) \<Rightarrow> \<lparr>left_files = files2, warnings = warned s, failure = err\<rparr>)
             else \<lparr>left_files = files1, warnings = warned s, failure = None\<rparr>))"

section \<open>Composite tiles and vector output: \<open>io_utils\<close>\<close>

text \<open>
  A tile of the older tilematrix interface that \<open>io_utils\<close> is written against: it is
  addressed by zoom, row and column, and its bounding box is a function of the pixelbuffer.
  \<open>process.tile(t)\<close> adds the process to \<open>t\<close> and keeps its address, so the model
  identifies it with \<open>t\<close> and takes the path from the process.
\<close>

record tile_id =
  zoom :: nat
  row :: nat
  col :: nat

text \<open>
  What a composite tile asks of its process and of the tile pyramid: \<open>tile.bbox(pixelbuffer)\<close>,
  \<open>tile_pyramid.tiles_from_bbox(bbox, zoom)\<close> and \<open>process.tile(t).path\<close>.
\<close>

record 'g process =
  bbox_of :: "tile_id \<Rightarrow> int \<Rightarrow> 'g"
  tiles_from_bbox :: "'g \<Rightarrow> nat \<Rightarrow> tile_id list"
  tile_path :: "tile_id \<Rightarrow> string"

text \<open>
  Modelled from the spec: \<open>exists()\<close> of a process tile, whose class is not among the
  sources, is the existence check of the tile's storage path.
\<close>

definition tile_exists :: "'g process \<Rightarrow> 'd fs \<Rightarrow> tile_id \<Rightarrow> bool" where
  "tile_exists process files t = path_exists files (tile_path process t)"

text \<open>
  \<open>VectorProcessTile.read\<close>. The function \<open>read_vector_window\<close> that \<open>io_utils\<close> imports
  from tilematrix takes a path, a tile and a pixelbuffer; it is the parameter \<open>read_window\<close>.
  In both branches its tile argument is the process tile whose file is read.
\<close>

definition VectorProcessTile_read ::
  "'g process \<Rightarrow> 'd fs \<Rightarrow> (string \<Rightarrow> tile_id \<Rightarrow> int \<Rightarrow> 'f stream) \<Rightarrow> tile_id \<Rightarrow> int \<Rightarrow> bool
     \<Rightarrow> 'f stream" where
  "VectorProcessTile_read process files read_window self_tile self_pixelbuffer no_neighbors =
     (if no_neighbors then
        (let tile = self_tile in
         if tile_exists process files tile
         then read_window (tile_path process tile) tile self_pixelbuffer
         else empty_stream)
      else
        (let dst_tile_bbox = bbox_of process self_tile self_pixelbuffer;
             src_tiles = tiles_from_bbox process dst_tile_bbox (zoom self_tile)
         in chain_from_iterable
              (map (\<lambda>tile. read_window (tile_path process tile) tile self_pixelbuffer)
                   (filter (tile_exists process files) src_tiles))))"

text \<open>
  The composite read as the specification words it: every existing covering tile is read
  with the destination tile as the window.
\<close>

definition composite_read_spec ::
  "'g process \<Rightarrow> 'd fs \<Rightarrow> (string \<Rightarrow> tile_id \<Rightarrow> int \<Rightarrow> 'f stream) \<Rightarrow> tile_id \<Rightarrow> int \<Rightarrow> bool
     \<Rightarrow> 'f stream" where
  "composite_read_spec process files read_window self_tile self_pixelbuffer no_neighbors =
     (if no_neighbors then
        (if tile_exists process files self_tile
         then read_window (tile_path process self_tile) self_tile self_pixelbuffer
         else empty_stream)
      else
        chain_from_iterable
          (map (\<lambda>tile. read_window (tile_path process tile) self_tile self_pixelbuffer)
               (filter (tile_exists process files)
                  (tiles_from_bbox process (bbox_of process self_tile self_pixelbuffer)
                     (zoom self_tile)))))"

text \<open>\<open>VectorProcessTile.is_empty\<close>: a non-empty list of paths is true.\<close>

definition VectorProcessTile_is_empty ::
  "'g process \<Rightarrow> 'd fs \<Rightarrow> tile_id \<Rightarrow> int \<Rightarrow> bool" where
  "VectorProcessTile_is_empty process files self_tile self_pixelbuffer =
     (let dst_tile_bbox = bbox_of process self_tile self_pixelbuffer;
          src_tiles = tiles_from_bbox process dst_tile_bbox (zoom self_tile);
          tile_paths = map (tile_path process) (filter (tile_exists process files) src_tiles)
      in if tile_paths \<noteq> [] then False else True)"

text \<open>
  What \<open>VectorFileTile.is_empty\<close> calls: \<open>file_bbox(input_file, tile_pyramid)\<close>,
  \<open>tile_geom.intersects(src_bbox)\<close>, rasterio's \<open>transform_bounds\<close> on the buffered bounds
  of the tile (its result is not used), and \<open>fiona.open(input_file)\<close> followed by the
  bounding-box filter of the dataset.
\<close>

record ('g, 'f) file_source =
  file_bbox :: "string \<Rightarrow> error + 'g"
  intersects :: "'g \<Rightarrow> 'g \<Rightarrow> bool"
  transform_bounds :: "bounds \<Rightarrow> error + bounds"
  open_filter :: "string \<Rightarrow> bounds \<Rightarrow> error + 'f stream"

text \<open>\<open>next(features)\<close>: the first item, \<open>StopIteration\<close> (here \<open>Inr None\<close>), or the
  exception that the iterator raises before it yields.\<close>

definition next_item :: "'f stream \<Rightarrow> error + 'f option" where
  "next_item s =
     (case yielded s of
        x # _ \<Rightarrow> Inr (Some x)
      | [] \<Rightarrow> (case raised s of None \<Rightarrow> Inr None | Some e \<Rightarrow> Inl e))"

text \<open>
  \<open>VectorFileTile.is_empty\<close>; \<open>tile_geom\<close> is \<open>tile.bbox(pixelbuffer)\<close> and
  \<open>buffered_bounds\<close> is \<open>tile.bounds(pixelbuffer)\<close>. The filter is given the bounds of the
  tile, not the transformed ones.
\<close>

definition VectorFileTile_is_empty ::
  "('g, 'f) file_source \<Rightarrow> string \<Rightarrow> 'g \<Rightarrow> bounds \<Rightarrow> error + bool" where
  "VectorFileTile_is_empty source input_file tile_geom buffered_bounds =
     (case file_bbox source input_file of
        Inl e \<Rightarrow> Inl e
      | Inr src_bbox \<Rightarrow>
          if \<not> intersects source tile_geom src_bbox then Inr True
          else
            (case transform_bounds source buffered_bounds of
               Inl e \<Rightarrow> Inl e
             | Inr _ \<Rightarrow>
                 (case open_filter source input_file buffered_bounds of
                    Inl e \<Rightarrow> Inl e
                  | Inr features \<Rightarrow>
                      (case next_item features of
                         Inl e \<Rightarrow> Inl e
                       | Inr None \<Rightarrow> Inr True
                       | Inr (Some _) \<Rightarrow> Inr False))))"

text \<open>
  \<open>NumpyTile.read\<close>. The argument \<open>indexes\<close> is \<open>None\<close>, a number or a list; the band
  indexes computed from it are not used by the rest of the method. The method returns what
  \<open>read_numpy\<close> returns, or a string.
\<close>

datatype indexes_arg = NoIndexes | OneIndex int | IndexList "int list"

datatype 'a py_value = Array 'a | Str string

definition band_indexes :: "indexes_arg \<Rightarrow> nat \<Rightarrow> int list" where
  "band_indexes indexes self_indexes =
     (case indexes of
        IndexList (i # is) \<Rightarrow> i # is
      | OneIndex i \<Rightarrow> if i \<noteq> 0 then [i] else map int [1 ..< self_indexes + 1]
      | _ \<Rightarrow> map int [1 ..< self_indexes + 1])"

definition NumpyTile_read ::
  "'g process \<Rightarrow> 'd fs \<Rightarrow> (string \<Rightarrow> error + 'a) \<Rightarrow> tile_id \<Rightarrow> nat \<Rightarrow> indexes_arg
     \<Rightarrow> error + 'a py_value" where
  "NumpyTile_read process files read_numpy self_tile self_indexes indexes =
     (let bands = band_indexes indexes self_indexes;
          tile = self_tile
      in if tile_exists process files tile
         then (case read_numpy (tile_path process tile) of
                 Inl e \<Rightarrow> Inl e
               | Inr a \<Rightarrow> Inr (Array a))
         else Inr (Str ''herbert''))"

text \<open>
  Modelled from the spec: \<open>process.tile.exists()\<close>, whose class is not among the sources, is
  the existence check of the path \<open>process.tile.path\<close>. This is the statement
  \<open>if process.tile.exists(): os.remove(process.tile.path)\<close>.
\<close>

definition remove_if_exists :: "string \<Rightarrow> 'd fs \<Rightarrow> error + 'd fs" where
  "remove_if_exists path files =
     (if path_exists files path then os_remove path files else Inr files)"

text \<open>
  \<open>write_vector\<close>. The database branch and \<open>prepare_paths\<close> touch no tile file: they are
  given by the exception they raise, if any. \<open>write_window\<close> is the \<open>write_vector_window\<close>
  that \<open>io_utils\<close> imports from tilematrix, applied to its arguments: it returns the files it
  leaves and the exception it raised. The three assertions on the arguments hold by typing.
\<close>

definition write_vector ::
  "bool \<Rightarrow> error option \<Rightarrow> error option \<Rightarrow> ('d fs \<Rightarrow> 'd fs \<times> error option) \<Rightarrow> string \<Rightarrow> 'd fs
     \<Rightarrow> 'd fs \<times> error option" where
  "write_vector is_db db_write prepare_paths write_window path files0 =
     (if is_db then (files0, db_write)
      else
        (case prepare_paths of
           Some e \<Rightarrow> (files0, Some e)
         | None \<Rightarrow>
             (case remove_if_exists path files0 of
                Inl e \<Rightarrow> (files0, Some e)
              | Inr files1 \<Rightarrow>
                  (case write_window files1 of
                     (files2, None) \<Rightarrow> (files2, None)
                   | (files2, Some e) \<Rightarrow>
                       (case remove_if_exists path files2 of
                          Inl e' \<Rightarrow> (files2, Some e')
                        | Inr files3 \<Rightarrow> (files3, Some e))))))"

section \<open>An example environment\<close>

text \<open>
  A small geometry engine on which the functions can be run: every geometry is valid, the
  empty collection and the bare instances are the empty geometries and the false ones, an
  intersection returns its first argument, and the transformation turns a point into the
  empty collection and leaves every other geometry alone. A multipart class called on the
  empty sequence leaves the instance bare; on a sequence with a \<open>None\<close> in it the classes
  \<open>MultiPoint\<close> and \<open>MultiLineString\<close> raise and the class \<open>MultiPolygon\<close> drops the
  \<open>None\<close>.
\<close>

definition example_engine :: "nat engine" where
  "example_engine =
     \<lparr>is_valid = (\<lambda>g. True),
      is_empty = (\<lambda>g. case g of GeometryCollection [] \<Rightarrow> True | Bare k \<Rightarrow> True | _ \<Rightarrow> False),
      truthy = (\<lambda>g. case g of GeometryCollection [] \<Rightarrow> False | Bare k \<Rightarrow> False | _ \<Rightarrow> True),
      buffer0 = (\<lambda>g. g),
      intersection = (\<lambda>a b. Inr a),
      geom_within = (\<lambda>a b. True),
      box = (\<lambda>b. Polygon 0),
      geom_bounds = (\<lambda>g. (0, 0, 1, 1)),
      transform_geom = (\<lambda>s d g. case g of Point _ \<Rightarrow> Inr (GeometryCollection []) | _ \<Rightarrow> Inr g),
      multipart_ctor =
        (\<lambda>cls xs. if xs = [] then Inr Unset
                  else if None \<in> set xs \<and> cls \<noteq> MultiPolygonC then Inl TypeError
                  else Inr (WithParts (survivors xs)))\<rparr>"

definition utm33_crs :: crs where
  "utm33_crs = \<lparr>is_epsg_code = True, get_init = Some ''epsg:32633'', proj_params = []\<rparr>"

definition example_pyramid :: pyramid where
  "example_pyramid = \<lparr>p_left = -180, p_bottom = -90, p_right = 180, p_top = 90\<rparr>"

definition inner_tile :: "nat tile" where
  "inner_tile =
     \<lparr>tile_bounds = (-1, -1, 46, 46), tile_bbox = Polygon 0, tile_pyramid = example_pyramid,
      pixelbuffer = 1, tile_crs = wgs84_crs\<rparr>"

definition edge_tile :: "nat tile" where
  "edge_tile =
     \<lparr>tile_bounds = (-181, 44, -134, 91), tile_bbox = Polygon 0,
      tile_pyramid = example_pyramid, pixelbuffer = 1, tile_crs = wgs84_crs\<rparr>"

definition example_open :: "string \<Rightarrow> error + (nat, nat) dataset" where
  "example_open path =
     (if path = ''a.geojson''
      then Inr \<lparr>vector_crs = wgs84_crs,
                vector_filter =
                  (\<lambda>b. [\<lparr>feat_properties = 7, feat_geometry = Point 1\<rparr>,
                        \<lparr>feat_properties = 8, feat_geometry = LineString 2\<rparr>])\<rparr>
      else Inl (OtherError ''no such file''))"

definition example_clip :: "nat geometry \<Rightarrow> pyramid \<Rightarrow> nat geometry list" where
  "example_clip g p = [Polygon 1, Polygon 2]"

definition example_schema :: schema where
  "example_schema = \<lparr>schema_geometry = ''Polygon'', schema_properties = []\<rparr>"

text \<open>A writer that stores the number of features it was given and does not fail.\<close>

definition example_fiona_write ::
  "string \<Rightarrow> schema \<Rightarrow> crs \<Rightarrow> (nat, nat) feature list \<Rightarrow> nat fs \<Rightarrow> nat fs \<times> error option" where
  "example_fiona_write path sch c fs stored = (stored(path \<mapsto> length fs), None)"

text \<open>
  A process whose pyramid has two tiles under every bounding box, both of them written,
  and a window reader whose only feature records the path and the window it was called
  with.
\<close>

definition example_process :: "nat process" where
  "example_process =
     \<lparr>bbox_of = (\<lambda>t pb. 0),
      tiles_from_bbox = (\<lambda>g z. [\<lparr>zoom = z, row = 0, col = 0\<rparr>, \<lparr>zoom = z, row = 0, col = 1\<rparr>]),
      tile_path = (\<lambda>t. if col t = 0 then ''out/0.geojson'' else ''out/1.geojson'')\<rparr>"

definition example_files :: "nat fs" where
  "example_files = [''out/0.geojson'' \<mapsto> 1, ''out/1.geojson'' \<mapsto> 1]"

definition example_read_window :: "string \<Rightarrow> tile_id \<Rightarrow> int \<Rightarrow> (string \<times> tile_id) stream" where
  "example_read_window path t pb = \<lparr>yielded = [(path, t)], warned = [], raised = None\<rparr>"

definition example_source :: "(nat, nat) file_source" where
  "example_source =
     \<lparr>file_bbox = (\<lambda>path. Inr 0),
      intersects = (\<lambda>a b. True),
      transform_bounds = (\<lambda>b. Inr b),
      open_filter = (\<lambda>path b. Inr empty_stream)\<rparr>"

text \<open>A window writer that creates the file and then fails.\<close>

definition failing_write_window :: "nat fs \<Rightarrow> nat fs \<times> error option" where
  "failing_write_window stored =
     (stored(''out/0.geojson'' \<mapsto> 0), Some (OtherError ''write failed''))"

section \<open>Properties of the normaliser\<close>

lemma multipart_geoms_class_name: "multipart_geoms (class_name c) = Some c"
  by (cases c) (simp_all add: multipart_geoms_def)

lemma isinstance_multipart_instance: "isinstance (multipart_instance cls built) cls"
  by (cases built) simp_all

lemma class_name_not_collection: "class_name c \<noteq> ''GeometryCollection''"
  by (cases c) simp_all

lemma geom_type_collection:
  "geom_type g = ''GeometryCollection''
     \<Longrightarrow> (\<exists>gs. g = GeometryCollection gs) \<or> (\<exists>k. g = Bare k)"
  by (cases g) (simp_all add: class_name_not_collection)

lemma supported_not_collection:
  "multipart_geoms target_type = Some cls \<Longrightarrow> target_type \<noteq> ''GeometryCollection''"
  by (auto simp: multipart_geoms_def)

text \<open>
  One unfolding of the function: on a collection, on a bare instance, and on a geometry
  with another type name.
\<close>

lemma clean_geometry_type_collection:
  assumes "multipart_geoms target_type = Some cls"
  shows "clean_geometry_type E (GeometryCollection gs) target_type am =
     (case sequence_results (map (\<lambda>g. clean_geometry_type E g target_type am) gs) of
        Inl e \<Rightarrow> Inl e
      | Inr cleaned \<Rightarrow>
          (case multipart_ctor E cls cleaned of
             Inl e \<Rightarrow> Inl e
           | Inr built \<Rightarrow> Inr (Some (multipart_instance cls built))))"
  using assms supported_not_collection[OF assms]
  by (subst clean_geometry_type.simps) simp

lemma clean_geometry_type_bare:
  assumes "multipart_geoms target_type = Some cls"
  shows "clean_geometry_type E (Bare k) target_type am =
     (if iterable k
      then (case multipart_ctor E cls [] of
              Inl e \<Rightarrow> Inl e
            | Inr built \<Rightarrow> Inr (Some (multipart_instance cls built)))
      else Inl TypeError)"
  using assms supported_not_collection[OF assms]
  by (subst clean_geometry_type.simps) simp

lemma clean_geometry_type_leaf:
  assumes "geom_type g \<noteq> ''GeometryCollection''"
  shows "clean_geometry_type E g target_type am =
     (case multipart_geoms target_type of
        None \<Rightarrow> Inl TypeError
      | Some cls \<Rightarrow>
          if geom_type g = target_type then Inr (Some g)
          else if am \<and> isinstance g cls then Inr (Some g)
          else (case multipart_geoms (geom_type g) of
                  None \<Rightarrow> Inl KeyError
                | Some m \<Rightarrow> if m = cls then Inr (Some g) else Inr None))"
  using assms by (subst clean_geometry_type.simps) (simp split: option.splits)

text \<open>
  What the function returns when it returns a geometry: one with the type name of the
  target, an instance of the target's multipart class, or one whose type name the table
  sends to that class.
\<close>

lemma clean_geometry_type_result:
  assumes sup: "multipart_geoms target_type = Some cls"
    and res: "clean_geometry_type E geometry target_type allow_multipart = Inr (Some r)"
  shows "geom_type r = target_type \<or> isinstance r cls
           \<or> multipart_geoms (geom_type r) = Some cls"
proof (cases "geom_type geometry = ''GeometryCollection''")
  case True
  then consider gs where "geometry = GeometryCollection gs" | k where "geometry = Bare k"
    using geom_type_collection by blast
  then have "\<exists>built. r = multipart_instance cls built"
  proof cases
    case 1
    with sup res show ?thesis
      by (auto simp: clean_geometry_type_collection split: sum.splits)
  next
    case 2
    with sup res show ?thesis
      by (auto simp: clean_geometry_type_bare split: sum.splits if_splits)
  qed
  then show ?thesis
    by (auto simp: isinstance_multipart_instance)
next
  case False
  with sup res have "r = geometry"
    and "geom_type geometry = target_type \<or> isinstance geometry cls
           \<or> multipart_geoms (geom_type geometry) = Some cls"
    by (auto simp: clean_geometry_type_leaf split: if_splits option.splits)
  then show ?thesis
    by auto
qed

text \<open>
  The empty geometries. When the multipart class leaves its instance bare on the empty
  sequence, an empty collection comes back as a bare instance of that class, whose type
  name is \<open>GeometryCollection\<close>; and the bare \<open>Polygon()\<close>, whose type name is not
  \<open>Polygon\<close>, is sent to the collection branch, where it cannot be iterated.
\<close>

lemma clean_geometry_type_empty_collection:
  assumes "multipart_geoms target_type = Some cls"
    and "multipart_ctor E cls [] = Inr Unset"
  shows "clean_geometry_type E (GeometryCollection []) target_type am
           = Inr (Some (Bare (MultipartK cls)))"
  using assms by (simp add: clean_geometry_type_collection)

lemma clean_geometry_type_bare_polygon:
  "clean_geometry_type E (Bare PolygonK) ''Polygon'' am = Inl TypeError"
proof -
  have "multipart_geoms ''Polygon'' = Some MultiPolygonC"
    by (simp add: multipart_geoms_def)
  then show ?thesis
    by (simp add: clean_geometry_type_bare)
qed

lemma sequence_results_all_returned:
  assumes "\<forall>x \<in> set xs. \<exists>r. x = Inr r"
  shows "\<exists>rs. sequence_results xs = Inr rs"
  using assms
proof (induction xs)
  case Nil
  then show ?case by simp
next
  case (Cons x xs)
  then obtain r rs where "x = Inr r" and "sequence_results xs = Inr rs"
    by auto
  then show ?case by simp
qed

lemma multipart_geoms_single:
  "multipart_geoms ''Point'' = Some MultiPointC"
  "multipart_geoms ''LineString'' = Some MultiLineStringC"
  "multipart_geoms ''Polygon'' = Some MultiPolygonC"
  by (simp_all add: multipart_geoms_def)

text \<open>
  The normaliser returns, a geometry or \<open>None\<close>, on every geometry without a linear ring
  and without a bare single-part instance, when the target type is supported and the
  multipart classes accept what they are given.
\<close>

lemma clean_geometry_type_returns:
  assumes ctor: "\<And>c xs. \<exists>built. multipart_ctor E c xs = Inr built"
    and sup: "multipart_geoms target_type = Some cls"
    and typed: "table_typed geometry"
  shows "\<exists>r. clean_geometry_type E geometry target_type am = Inr r"
  using typed
proof (induction geometry)
  case (GeometryCollection gs)
  then have "\<forall>x \<in> set (map (\<lambda>g. clean_geometry_type E g target_type am) gs). \<exists>r. x = Inr r"
    by auto
  then obtain rs
    where "sequence_results (map (\<lambda>g. clean_geometry_type E g target_type am) gs) = Inr rs"
    using sequence_results_all_returned by blast
  moreover obtain built where "multipart_ctor E cls rs = Inr built"
    using ctor by blast
  ultimately show ?case
    by (simp add: clean_geometry_type_collection[OF sup])
next
  case (Multipart c gs)
  show ?case
    by (simp add: clean_geometry_type_leaf sup class_name_not_collection
        multipart_geoms_class_name)
next
  case (Bare k)
  moreover obtain built where "multipart_ctor E cls [] = Inr built"
    using ctor by blast
  ultimately show ?case
    by (simp add: clean_geometry_type_bare[OF sup])
qed (simp_all add: clean_geometry_type_leaf sup multipart_geoms_single)

text \<open>
  With a multipart class that ignores the entries \<open>None\<close> of its argument, the collection
  branch does what the specification says.
\<close>

lemma collection_agrees_with_spec_when_ctor_drops_none:
  assumes "\<And>cls xs. multipart_ctor E cls xs = multipart_ctor E cls (map Some (survivors xs))"
    and "multipart_geoms target_type = Some cls"
  shows "clean_geometry_type E (GeometryCollection gs) target_type am =
           normalize_collection_spec E gs target_type am"
proof -
  have "multipart_ctor E cls xs = multipart_ctor E cls (map Some (survivors xs))" for xs
    by (rule assms(1))
  then show ?thesis
    using assms(2)
    by (simp add: clean_geometry_type_collection normalize_collection_spec_def
        split: sum.splits)
qed

text \<open>
  C2. The normaliser does not return on every input. On the collection of a point and a
  line string, with the target type \<open>Point\<close>, it calls the class \<open>MultiPoint\<close> on the point
  and the \<open>None\<close> of the line string; when this call raises, the normaliser raises with it
  and returns neither a geometry of the target's family nor \<open>None\<close>.
\<close>

theorem clean_geometry_type_raises_on_mixed_collection:
  assumes "multipart_ctor E MultiPointC [Some (Point p), None] = Inl e"
  shows "clean_geometry_type E (GeometryCollection [Point p, LineString l]) ''Point'' am
           = Inl e"
proof -
  have sup: "multipart_geoms ''Point'' = Some MultiPointC"
    and ls: "multipart_geoms ''LineString'' = Some MultiLineStringC"
    by (simp_all add: multipart_geoms_def)
  have "clean_geometry_type E (Point p) ''Point'' am = Inr (Some (Point p))"
    by (simp add: clean_geometry_type_leaf sup)
  moreover have "clean_geometry_type E (LineString l) ''Point'' am = Inr None"
    by (simp add: clean_geometry_type_leaf sup ls)
  ultimately show ?thesis
    using assms by (simp add: clean_geometry_type_collection[OF sup])
qed

theorem clean_geometry_type_raises_on_mixed_collection_witness:
  "multipart_ctor example_engine MultiPointC [Some (Point 1), None] = Inl TypeError
   \<and> clean_geometry_type example_engine (GeometryCollection [Point 1, LineString 2])
        ''Point'' True = Inl TypeError"
proof -
  have raises: "multipart_ctor example_engine MultiPointC [Some (Point 1), None]
                  = Inl TypeError"
    by (simp add: example_engine_def)
  from clean_geometry_type_raises_on_mixed_collection[OF raises, of 2 True] raises
  show ?thesis
    by blast
qed

text \<open>
  C3. On the collection of a point and a line string, with the target type
  \<open>LineString\<close>, the normaliser calls the multipart class on the results of both members:
  the \<open>None\<close> of the point is not discarded, and the result is whatever the class makes of
  that sequence, an exception included.
\<close>

theorem clean_geometry_type_collection_keeps_no_match:
  "clean_geometry_type E (GeometryCollection [Point p, LineString l]) ''LineString'' am =
     (case multipart_ctor E MultiLineStringC [None, Some (LineString l)] of
        Inl e \<Rightarrow> Inl e
      | Inr built \<Rightarrow> Inr (Some (multipart_instance MultiLineStringC built)))"
proof -
  have sup: "multipart_geoms ''LineString'' = Some MultiLineStringC"
    and pt: "multipart_geoms ''Point'' = Some MultiPointC"
    by (simp_all add: multipart_geoms_def)
  have "clean_geometry_type E (Point p) ''LineString'' am = Inr None"
    by (simp add: clean_geometry_type_leaf sup pt)
  moreover have "clean_geometry_type E (LineString l) ''LineString'' am
                   = Inr (Some (LineString l))"
    by (simp add: clean_geometry_type_leaf sup)
  ultimately show ?thesis
    by (simp add: clean_geometry_type_collection[OF sup])
qed

section \<open>Properties of the reprojection\<close>

lemma reproject_geom_raises_iff:
  assumes "\<not> is_empty E geometry" and "src_crs \<noteq> dst_crs"
    and "transform_geom E src_crs dst_crs geometry = Inr transformed"
  shows "(reproject_geom E geometry src_crs dst_crs validity_check = Inl TopologicalError)
     = ((validity_check \<and> \<not> is_valid E (buffer0 E transformed))
          \<or> is_empty E (buffer0 E transformed))"
  using assms by (simp add: reproject_geom_def Let_def)

text \<open>
  In its last branch \<open>reproject_geometry\<close> checks validity whatever the flag says.
\<close>

lemma reproject_geometry_unbounded_ignores_flag:
  assumes "src_crs \<noteq> dst_crs" and "get_init dst_crs = None"
  shows "reproject_geometry E geometry src_crs dst_crs error_on_clip validity_check
           = reproject_geom E geometry src_crs dst_crs True"
  using assms by (simp add: reproject_geometry_def)

text \<open>
  C4. A reprojection step between distinct CRSs whose result is empty raises the topology
  error although \<open>validity_check\<close> is not set.
\<close>

theorem reproject_geom_empty_raises_without_check:
  assumes "\<not> is_empty E geometry" and "src_crs \<noteq> dst_crs"
    and "transform_geom E src_crs dst_crs geometry = Inr transformed"
    and "is_empty E (buffer0 E transformed)"
  shows "reproject_geom E geometry src_crs dst_crs False = Inl TopologicalError"
  using assms by (simp add: reproject_geom_def Let_def)

theorem reproject_geom_empty_raises_without_check_witness:
  "\<not> is_empty example_engine (Point 1) \<and> wgs84_crs \<noteq> utm33_crs
   \<and> transform_geom example_engine wgs84_crs utm33_crs (Point 1) = Inr (GeometryCollection [])
   \<and> is_empty example_engine (buffer0 example_engine (GeometryCollection []))
   \<and> reproject_geom example_engine (Point 1) wgs84_crs utm33_crs False = Inl TopologicalError"
proof -
  have a: "\<not> is_empty example_engine (Point 1)"
    by (simp add: example_engine_def)
  have b: "wgs84_crs \<noteq> utm33_crs"
    by (simp add: wgs84_crs_def utm33_crs_def)
  have c: "transform_geom example_engine wgs84_crs utm33_crs (Point 1)
             = Inr (GeometryCollection [])"
    by (simp add: example_engine_def)
  have d: "is_empty example_engine (buffer0 example_engine (GeometryCollection []))"
    by (simp add: example_engine_def)
  from reproject_geom_empty_raises_without_check[OF a b c d] a b c d show ?thesis
    by blast
qed

section \<open>Properties of the window reader\<close>

text \<open>
  C1. When the source CRS differs from the tile CRS and the reprojection of the clipped
  geometry of a feature raises the topology error, the loop records the warning and goes on
  with the features that follow, and it yields the feature, with the clipped geometry that
  was not reprojected.
\<close>

theorem failed_reprojection_still_yields:
  assumes "is_valid E (feat_geometry feature)"
    and "intersection E (feat_geometry feature) dst_bbox = Inr clipped"
    and "clean_geometry_type E clipped (geom_type (feat_geometry feature)) True
           = Inr (Some geom)"
    and "truthy E geom"
    and "src_crs \<noteq> dst_crs"
    and "reproject_geometry E geom src_crs dst_crs False validity_check
           = Inl TopologicalError"
  shows "for_each (get_reprojected_feature E dst_bbox src_crs dst_crs validity_check)
           (feature # rest) =
         \<lparr>yielded = \<lparr>feat_properties = feat_properties feature, feat_geometry = geom\<rparr>
                    # yielded (for_each (get_reprojected_feature E dst_bbox src_crs dst_crs
                                          validity_check) rest),
          warned = ''feature omitted: reprojection failed''
                    # warned (for_each (get_reprojected_feature E dst_bbox src_crs dst_crs
                                         validity_check) rest),
          raised = raised (for_each (get_reprojected_feature E dst_bbox src_crs dst_crs
                                       validity_check) rest)\<rparr>"
proof -
  have "get_reprojected_feature E dst_bbox src_crs dst_crs validity_check feature =
          Inr (Some \<lparr>feat_properties = feat_properties feature, feat_geometry = geom\<rparr>,
               [''feature omitted: reprojection failed''])"
    using assms by (simp add: get_reprojected_feature_def)
  then show ?thesis
    by (simp add: Let_def)
qed

lemma example_point_reprojection_fails:
  "reproject_geometry example_engine (Point 1) wgs84_crs utm33_crs False vc
     = Inl TopologicalError"
proof -
  have "CRS_BOUNDS ''epsg:32633'' = None"
    by (simp add: CRS_BOUNDS_def)
  then have "reproject_geometry example_engine (Point 1) wgs84_crs utm33_crs False vc
               = reproject_geom example_engine (Point 1) wgs84_crs utm33_crs True"
    by (simp add: reproject_geometry_def wgs84_crs_def utm33_crs_def)
  also have "\<dots> = Inl TopologicalError"
    by (simp add: reproject_geom_def example_engine_def wgs84_crs_def utm33_crs_def)
  finally show ?thesis .
qed

theorem failed_reprojection_still_yields_witness:
  "for_each (get_reprojected_feature example_engine (Polygon 0) wgs84_crs utm33_crs False)
     [\<lparr>feat_properties = 7::nat, feat_geometry = Point 1\<rparr>] =
   \<lparr>yielded = [\<lparr>feat_properties = 7, feat_geometry = Point 1\<rparr>],
    warned = [''feature omitted: reprojection failed''],
    raised = None\<rparr>"
proof -
  let ?f = "\<lparr>feat_properties = 7::nat, feat_geometry = Point (1::nat)\<rparr>"
  have a: "is_valid example_engine (feat_geometry ?f)"
    by (simp add: example_engine_def)
  have b: "intersection example_engine (feat_geometry ?f) (Polygon 0) = Inr (Point 1)"
    by (simp add: example_engine_def)
  have c: "clean_geometry_type example_engine (Point 1) (geom_type (feat_geometry ?f)) True
             = Inr (Some (Point 1))"
    by (simp add: clean_geometry_type_leaf multipart_geoms_def)
  have d: "truthy example_engine (Point 1)"
    by (simp add: example_engine_def)
  have e: "wgs84_crs \<noteq> utm33_crs"
    by (simp add: wgs84_crs_def utm33_crs_def)
  note f = example_point_reprojection_fails[of False]
  from failed_reprojection_still_yields[OF a b c d e f, of "[]"] show ?thesis
    by (simp add: empty_stream_def)
qed

text \<open>
  The whole read on the example source, for a tile in another CRS: the point, whose
  reprojection fails, is among the features that are returned.
\<close>

lemma example_read_keeps_failed_feature:
  "get_reprojected_features example_engine example_open ''a.geojson'' (0, 0, 1, 1)
     utm33_crs False
   = \<lparr>yielded = [\<lparr>feat_properties = 7, feat_geometry = Point 1\<rparr>,
                 \<lparr>feat_properties = 8, feat_geometry = LineString 2\<rparr>],
      warned = [''feature omitted: reprojection failed''],
      raised = None\<rparr>"
proof -
  have differ: "wgs84_crs \<noteq> utm33_crs" "utm33_crs \<noteq> wgs84_crs"
    by (simp_all add: wgs84_crs_def utm33_crs_def)
  have bbox: "reproject_geometry example_engine (Polygon 0) utm33_crs wgs84_crs False True
                = Inr (Polygon 0)"
    using differ
    by (simp add: reproject_geometry_def reproject_geom_def)
       (simp add: wgs84_crs_def example_engine_def)
  have "CRS_BOUNDS ''epsg:32633'' = None"
    by (simp add: CRS_BOUNDS_def)
  then have line: "reproject_geometry example_engine (LineString 2) wgs84_crs utm33_crs
                     False False = Inr (LineString 2)"
    using differ
    by (simp add: reproject_geometry_def reproject_geom_def)
       (simp add: utm33_crs_def example_engine_def)
  have clean: "clean_geometry_type example_engine (Point 1) ''Point'' True
                 = Inr (Some (Point 1))"
    "clean_geometry_type example_engine (LineString 2) ''LineString'' True
       = Inr (Some (LineString 2))"
    by (simp_all add: clean_geometry_type_leaf multipart_geoms_def)
  have engine: "is_valid example_engine g" "intersection example_engine g b = Inr g"
    "truthy example_engine (Point 1)" "truthy example_engine (LineString 2)"
    "box example_engine bs = Polygon 0" "geom_bounds example_engine g = (0, 0, 1, 1)"
    for g b bs
    by (simp_all add: example_engine_def)
  have point: "get_reprojected_feature example_engine (Polygon 0) wgs84_crs utm33_crs False
                 \<lparr>feat_properties = 7::nat, feat_geometry = Point 1\<rparr>
               = Inr (Some \<lparr>feat_properties = 7, feat_geometry = Point 1\<rparr>,
                      [''feature omitted: reprojection failed''])"
    using differ
    by (simp add: get_reprojected_feature_def engine clean
        example_point_reprojection_fails del: One_nat_def)
  have linestring: "get_reprojected_feature example_engine (Polygon 0) wgs84_crs utm33_crs
                      False \<lparr>feat_properties = 8::nat, feat_geometry = LineString 2\<rparr>
                    = Inr (Some \<lparr>feat_properties = 8, feat_geometry = LineString 2\<rparr>, [])"
    using differ
    by (simp add: get_reprojected_feature_def engine clean line)
  show ?thesis
    using differ
    by (simp add: get_reprojected_features_def example_open_def engine bbox point linestring
        empty_stream_def del: One_nat_def)
qed

text \<open>
  C5. The window read takes one box, the bounds of the buffered tile, when the pixelbuffer
  is 0 or the bounds stay strictly inside the four boundaries of the pyramid. It reads the
  boxes of the split, one after the other and chained in their order, only when the
  pixelbuffer is not 0 and the bounds touch or exceed a boundary.
\<close>

theorem read_vector_window_boxes:
  assumes "tile_bounds tile = (tile_left, tile_bottom, tile_right, tile_top)"
  shows "(pixelbuffer tile = 0
            \<or> \<not> (tile_left \<le> p_left (tile_pyramid tile)
                   \<or> tile_bottom \<le> p_bottom (tile_pyramid tile)
                   \<or> p_right (tile_pyramid tile) \<le> tile_right
                   \<or> p_top (tile_pyramid tile) \<le> tile_top)
          \<longrightarrow> read_vector_window E fiona_open clip input_file tile validity_check
                = get_reprojected_features E fiona_open input_file (tile_bounds tile)
                    (tile_crs tile) validity_check)
       \<and> (pixelbuffer tile \<noteq> 0
            \<and> (tile_left \<le> p_left (tile_pyramid tile)
                   \<or> tile_bottom \<le> p_bottom (tile_pyramid tile)
                   \<or> p_right (tile_pyramid tile) \<le> tile_right
                   \<or> p_top (tile_pyramid tile) \<le> tile_top)
          \<longrightarrow> read_vector_window E fiona_open clip input_file tile validity_check
                = chain_from_iterable
                    (map (\<lambda>bbox. get_reprojected_features E fiona_open input_file
                                   (geom_bounds E bbox) (tile_crs tile) validity_check)
                         (clip (tile_bbox tile) (tile_pyramid tile))))"
  using assms by (auto simp: read_vector_window_def is_on_edge_def Let_def)

theorem read_vector_window_boxes_witness:
  "read_vector_window example_engine example_open example_clip ''a.geojson'' inner_tile True
     = get_reprojected_features example_engine example_open ''a.geojson'' (-1, -1, 46, 46)
         wgs84_crs True
   \<and> read_vector_window example_engine example_open example_clip ''a.geojson'' edge_tile True
     = chain_from_iterable
         [get_reprojected_features example_engine example_open ''a.geojson''
            (geom_bounds example_engine (Polygon 1)) wgs84_crs True,
          get_reprojected_features example_engine example_open ''a.geojson''
            (geom_bounds example_engine (Polygon 2)) wgs84_crs True]"
proof -
  have i: "tile_bounds inner_tile = (-1, -1, 46, 46)"
    by (simp add: inner_tile_def)
  have e: "tile_bounds edge_tile = (-181, 44, -134, 91)"
    by (simp add: edge_tile_def)
  from read_vector_window_boxes[OF i, of example_engine example_open example_clip
      "''a.geojson''" True]
  have "read_vector_window example_engine example_open example_clip ''a.geojson''
          inner_tile True
        = get_reprojected_features example_engine example_open ''a.geojson''
            (-1, -1, 46, 46) wgs84_crs True"
    by (simp add: inner_tile_def example_pyramid_def)
  moreover
  from read_vector_window_boxes[OF e, of example_engine example_open example_clip
      "''a.geojson''" True]
  have "read_vector_window example_engine example_open example_clip ''a.geojson''
          edge_tile True
        = chain_from_iterable
            [get_reprojected_features example_engine example_open ''a.geojson''
               (geom_bounds example_engine (Polygon 1)) wgs84_crs True,
             get_reprojected_features example_engine example_open ''a.geojson''
               (geom_bounds example_engine (Polygon 2)) wgs84_crs True]"
    by (simp add: edge_tile_def example_pyramid_def example_clip_def)
  ultimately show ?thesis
    by blast
qed

section \<open>Properties of the composite tiles\<close>

lemma chain_from_iterable_no_error:
  assumes "\<forall>s \<in> set ss. raised s = None"
  shows "yielded (chain_from_iterable ss) = concat (map yielded ss)
         \<and> raised (chain_from_iterable ss) = None"
  using assms by (induction ss) (simp_all add: empty_stream_def Let_def)

lemma example_tiles:
  "tiles_from_bbox example_process g z
     = [\<lparr>zoom = z, row = 0, col = 0\<rparr>, \<lparr>zoom = z, row = 0, col = 1\<rparr>]"
  by (simp add: example_process_def)

lemma example_paths:
  "tile_path example_process t = (if col t = 0 then ''out/0.geojson'' else ''out/1.geojson'')"
  by (simp add: example_process_def)

lemma example_tiles_exist: "tile_exists example_process example_files t"
  by (simp add: tile_exists_def path_exists_def example_paths example_files_def)

text \<open>
  C6, as the claim states it, fails: with two covering tiles in storage the code reads the
  second file with the second covering tile as the window, not the destination tile.
\<close>

theorem composite_read_window_counterexample:
  "VectorProcessTile_read example_process example_files example_read_window
     \<lparr>zoom = 5, row = 0, col = 0\<rparr> 1 False
   \<noteq> composite_read_spec example_process example_files example_read_window
       \<lparr>zoom = 5, row = 0, col = 0\<rparr> 1 False"
proof -
  have "yielded (VectorProcessTile_read example_process example_files example_read_window
                   \<lparr>zoom = 5, row = 0, col = 0\<rparr> 1 False)
          = [(''out/0.geojson'', \<lparr>zoom = 5, row = 0, col = 0\<rparr>),
             (''out/1.geojson'', \<lparr>zoom = 5, row = 0, col = 1\<rparr>)]"
    by (simp add: VectorProcessTile_read_def Let_def example_tiles example_tiles_exist
        example_paths example_read_window_def empty_stream_def)
  moreover
  have "yielded (composite_read_spec example_process example_files example_read_window
                   \<lparr>zoom = 5, row = 0, col = 0\<rparr> 1 False)
          = [(''out/0.geojson'', \<lparr>zoom = 5, row = 0, col = 0\<rparr>),
             (''out/1.geojson'', \<lparr>zoom = 5, row = 0, col = 0\<rparr>)]"
    by (simp add: composite_read_spec_def Let_def example_tiles example_tiles_exist
        example_paths example_read_window_def empty_stream_def)
  ultimately show ?thesis
    by auto
qed

text \<open>
  C6, amended. The composite read invokes the window read for each covering tile that
  exists in storage, on that tile's path and with that covering tile itself as the window,
  and chains the results in covering-tile order; when no read raises, the features are the
  concatenation of the features of these reads. Covering tiles that do not exist
  contribute nothing and cause no error. In no-neighbors mode only the process tile at the
  destination's address is read, and the result is empty if it does not exist.
\<close>

theorem VectorProcessTile_read_covering:
  "(let covering = tiles_from_bbox process (bbox_of process self_tile pb) (zoom self_tile);
        existing = filter (tile_exists process stored) covering;
        result = VectorProcessTile_read process stored read_window self_tile pb no_neighbors
    in (\<not> no_neighbors \<longrightarrow>
          result = chain_from_iterable
                     (map (\<lambda>t. read_window (tile_path process t) t pb) existing))
       \<and> (\<not> no_neighbors
            \<and> (\<forall>t \<in> set existing. raised (read_window (tile_path process t) t pb) = None)
          \<longrightarrow> yielded result
                  = concat (map (\<lambda>t. yielded (read_window (tile_path process t) t pb)) existing)
              \<and> raised result = None)
       \<and> (no_neighbors \<and> tile_exists process stored self_tile \<longrightarrow>
            result = read_window (tile_path process self_tile) self_tile pb)
       \<and> (no_neighbors \<and> \<not> tile_exists process stored self_tile \<longrightarrow>
            result = empty_stream))"
proof -
  let ?existing = "filter (tile_exists process stored)
                     (tiles_from_bbox process (bbox_of process self_tile pb) (zoom self_tile))"
  let ?reads = "map (\<lambda>t. read_window (tile_path process t) t pb) ?existing"
  have "yielded (chain_from_iterable ?reads) = concat (map yielded ?reads)
        \<and> raised (chain_from_iterable ?reads) = None"
    if "\<forall>t \<in> set ?existing. raised (read_window (tile_path process t) t pb) = None"
    using that by (intro chain_from_iterable_no_error) auto
  then show ?thesis
    by (simp add: VectorProcessTile_read_def Let_def comp_def)
qed

theorem VectorProcessTile_read_covering_witness:
  "yielded (VectorProcessTile_read example_process example_files example_read_window
              \<lparr>zoom = 5, row = 0, col = 0\<rparr> 1 False)
     = [(''out/0.geojson'', \<lparr>zoom = 5, row = 0, col = 0\<rparr>),
        (''out/1.geojson'', \<lparr>zoom = 5, row = 0, col = 1\<rparr>)]
   \<and> VectorProcessTile_read example_process (Map.empty :: nat fs) example_read_window
        \<lparr>zoom = 5, row = 0, col = 0\<rparr> 1 True = empty_stream"
proof -
  have none: "\<not> tile_exists example_process (Map.empty :: nat fs) \<lparr>zoom = 5, row = 0, col = 0\<rparr>"
    by (simp add: tile_exists_def path_exists_def)
  from VectorProcessTile_read_covering[of example_process "\<lparr>zoom = 5, row = 0, col = 0\<rparr>" 1
      example_files example_read_window False]
  have "yielded (VectorProcessTile_read example_process example_files example_read_window
                   \<lparr>zoom = 5, row = 0, col = 0\<rparr> 1 False)
          = [(''out/0.geojson'', \<lparr>zoom = 5, row = 0, col = 0\<rparr>),
             (''out/1.geojson'', \<lparr>zoom = 5, row = 0, col = 1\<rparr>)]"
    by (simp add: Let_def example_tiles example_tiles_exist example_paths
        example_read_window_def empty_stream_def)
  moreover
  from VectorProcessTile_read_covering[of example_process "\<lparr>zoom = 5, row = 0, col = 0\<rparr>" 1
      "Map.empty :: nat fs" example_read_window True] none
  have "VectorProcessTile_read example_process (Map.empty :: nat fs) example_read_window
          \<lparr>zoom = 5, row = 0, col = 0\<rparr> 1 True = empty_stream"
    by (simp add: Let_def)
  ultimately show ?thesis
    by blast
qed

text \<open>
  C7. The composite tile is empty exactly when no covering tile exists in storage; the
  function is given no reader. A single-file source is reported empty exactly when its
  bounding box is found and either the buffered extent of the tile does not intersect it,
  or the bounds are transformed, the file opens and the bounding-box filter yields no
  feature.
\<close>

theorem is_empty_iff:
  "VectorProcessTile_is_empty process stored self_tile pb
     = (\<forall>t \<in> set (tiles_from_bbox process (bbox_of process self_tile pb) (zoom self_tile)).
          \<not> tile_exists process stored t)
   \<and> ((VectorFileTile_is_empty source input_file tile_geom buffered_bounds = Inr True)
        = (\<exists>src_bbox. file_bbox source input_file = Inr src_bbox
             \<and> (\<not> intersects source tile_geom src_bbox
                  \<or> (\<exists>b. transform_bounds source buffered_bounds = Inr b)
                     \<and> (\<exists>features. open_filter source input_file buffered_bounds = Inr features
                           \<and> yielded features = [] \<and> raised features = None))))"
proof
  show "VectorProcessTile_is_empty process stored self_tile pb
     = (\<forall>t \<in> set (tiles_from_bbox process (bbox_of process self_tile pb) (zoom self_tile)).
          \<not> tile_exists process stored t)"
    by (simp add: VectorProcessTile_is_empty_def Let_def filter_empty_conv)
next
  have next_none: "(next_item s = Inr None) = (yielded s = [] \<and> raised s = None)"
    for s :: "'f stream"
    by (simp add: next_item_def split: list.splits option.splits)
  have "(VectorFileTile_is_empty source input_file tile_geom buffered_bounds = Inr True)
        = (\<exists>src_bbox. file_bbox source input_file = Inr src_bbox
             \<and> (\<not> intersects source tile_geom src_bbox
                  \<or> (\<exists>b. transform_bounds source buffered_bounds = Inr b)
                     \<and> (\<exists>features. open_filter source input_file buffered_bounds = Inr features
                           \<and> next_item features = Inr None)))"
    by (auto simp: VectorFileTile_is_empty_def split: sum.splits option.splits)
  then show "(VectorFileTile_is_empty source input_file tile_geom buffered_bounds = Inr True)
        = (\<exists>src_bbox. file_bbox source input_file = Inr src_bbox
             \<and> (\<not> intersects source tile_geom src_bbox
                  \<or> (\<exists>b. transform_bounds source buffered_bounds = Inr b)
                     \<and> (\<exists>features. open_filter source input_file buffered_bounds = Inr features
                           \<and> yielded features = [] \<and> raised features = None)))"
    by (simp add: next_none)
qed

theorem is_empty_iff_witness:
  "\<not> VectorProcessTile_is_empty example_process example_files \<lparr>zoom = 5, row = 0, col = 0\<rparr> 1
   \<and> VectorProcessTile_is_empty example_process (Map.empty :: nat fs)
        \<lparr>zoom = 5, row = 0, col = 0\<rparr> 1
   \<and> VectorFileTile_is_empty example_source ''a.geojson'' (0::nat) (0, 0, 1, 1) = Inr True"
proof -
  have none: "\<not> tile_exists example_process (Map.empty :: nat fs) t" for t
    by (simp add: tile_exists_def path_exists_def)
  have src: "file_bbox example_source p = Inr 0" "transform_bounds example_source b = Inr b"
    "open_filter example_source p b = Inr empty_stream" for p b
    by (simp_all add: example_source_def)
  from is_empty_iff[of example_process example_files "\<lparr>zoom = 5, row = 0, col = 0\<rparr>" 1
      example_source "''a.geojson''" 0 "(0, 0, 1, 1)"]
  have "\<not> VectorProcessTile_is_empty example_process example_files
            \<lparr>zoom = 5, row = 0, col = 0\<rparr> 1"
    by (auto simp: example_tiles example_tiles_exist)
  moreover
  from is_empty_iff[of example_process "Map.empty :: nat fs" "\<lparr>zoom = 5, row = 0, col = 0\<rparr>" 1
      example_source "''a.geojson''" 0 "(0, 0, 1, 1)"]
  have "VectorProcessTile_is_empty example_process (Map.empty :: nat fs)
          \<lparr>zoom = 5, row = 0, col = 0\<rparr> 1"
    and "VectorFileTile_is_empty example_source ''a.geojson'' (0::nat) (0, 0, 1, 1) = Inr True"
    by (simp_all add: example_tiles none src empty_stream_def)
  ultimately show ?thesis
    by blast
qed

text \<open>
  C10. When the process tile does not exist in storage, \<open>NumpyTile.read\<close> returns the
  string \<open>herbert\<close>.
\<close>

theorem NumpyTile_read_herbert:
  assumes "\<not> tile_exists process stored self_tile"
  shows "NumpyTile_read process stored read_numpy self_tile self_indexes indexes
           = Inr (Str ''herbert'')"
  using assms by (simp add: NumpyTile_read_def Let_def)

theorem NumpyTile_read_herbert_witness:
  "\<not> tile_exists example_process (Map.empty :: nat fs) \<lparr>zoom = 5, row = 0, col = 0\<rparr>
   \<and> NumpyTile_read example_process (Map.empty :: nat fs) (\<lambda>p. Inr (0::nat))
        \<lparr>zoom = 5, row = 0, col = 0\<rparr> 3 NoIndexes = Inr (Str ''herbert'')"
proof -
  have none: "\<not> tile_exists example_process (Map.empty :: nat fs) \<lparr>zoom = 5, row = 0, col = 0\<rparr>"
    by (simp add: tile_exists_def path_exists_def)
  from NumpyTile_read_herbert[OF none] none show ?thesis
    by blast
qed

section \<open>Properties of the writers\<close>

lemma os_remove_or_keep:
  "(case os_remove path stored of Inl e \<Rightarrow> stored | Inr removed \<Rightarrow> removed)
     = stored(path := None)"
  by (auto simp: os_remove_def split: option.splits)

text \<open>
  C8. Whatever was at the destination path is gone before anything is written, and a path
  with no file is no error: with an empty feature list the call leaves the storage without
  a file at the path and raises nothing; when no feature survives the loop, no file is
  created and the existence check of the path is false; and when features survive, the
  writer is started on the storage from which the path has been removed.
\<close>

theorem write_vector_window_stale_and_empty:
  "(let result = write_vector_window E fiona_write in_data out_schema out_tile out_path stored;
        s = for_each (clip_feature E out_schema out_tile) in_data
    in (in_data = [] \<longrightarrow>
          left_files result = stored(out_path := None) \<and> failure result = None)
       \<and> (yielded s = [] \<longrightarrow>
            left_files result = stored(out_path := None)
            \<and> \<not> path_exists (left_files result) out_path)
       \<and> (in_data \<noteq> [] \<and> raised s = None \<and> yielded s \<noteq> [] \<longrightarrow>
            left_files result
              = fst (fiona_write out_path out_schema (tile_crs out_tile) (yielded s)
                       (stored(out_path := None)))))"
proof -
  have "for_each (clip_feature E out_schema out_tile) [] = empty_stream"
    by simp
  then show ?thesis
    by (auto simp: write_vector_window_def Let_def os_remove_or_keep path_exists_def
        empty_stream_def split: option.splits prod.splits)
qed

theorem write_vector_window_stale_and_empty_witness:
  "left_files (write_vector_window example_engine example_fiona_write [] example_schema
       inner_tile ''out/0.geojson'' example_files) = example_files(''out/0.geojson'' := None)
   \<and> \<not> path_exists
        (left_files (write_vector_window example_engine example_fiona_write
           [\<lparr>feat_properties = 7, feat_geometry = Point 1\<rparr>] example_schema inner_tile
           ''out/0.geojson'' example_files)) ''out/0.geojson''
   \<and> left_files (write_vector_window example_engine example_fiona_write
        [\<lparr>feat_properties = 7, feat_geometry = Polygon 1\<rparr>] example_schema inner_tile
        ''out/0.geojson'' example_files) = example_files(''out/0.geojson'' \<mapsto> 1)"
proof -
  have point: "for_each (clip_feature example_engine example_schema inner_tile)
                 [\<lparr>feat_properties = 7::nat, feat_geometry = Point 1\<rparr>] = empty_stream"
    by (simp add: clip_feature_def example_engine_def example_schema_def
        clean_geometry_type_leaf multipart_geoms_def empty_stream_def)
  have polygon: "for_each (clip_feature example_engine example_schema inner_tile)
                   [\<lparr>feat_properties = 7::nat, feat_geometry = Polygon 1\<rparr>]
                 = \<lparr>yielded = [\<lparr>feat_properties = 7, feat_geometry = Polygon 1\<rparr>],
                    warned = [], raised = None\<rparr>"
    by (simp add: clip_feature_def example_engine_def example_schema_def empty_stream_def)
  from write_vector_window_stale_and_empty[where in_data = "[]" and E = example_engine
      and fiona_write = example_fiona_write and out_schema = example_schema
      and out_tile = inner_tile and out_path = "''out/0.geojson''" and stored = example_files]
  have "left_files (write_vector_window example_engine example_fiona_write [] example_schema
          inner_tile ''out/0.geojson'' example_files)
        = example_files(''out/0.geojson'' := None)"
    by (simp add: Let_def)
  moreover
  from write_vector_window_stale_and_empty[where
      in_data = "[\<lparr>feat_properties = 7, feat_geometry = Point 1\<rparr>]" and E = example_engine
      and fiona_write = example_fiona_write and out_schema = example_schema
      and out_tile = inner_tile and out_path = "''out/0.geojson''" and stored = example_files]
  have "\<not> path_exists
          (left_files (write_vector_window example_engine example_fiona_write
             [\<lparr>feat_properties = 7, feat_geometry = Point 1\<rparr>] example_schema inner_tile
             ''out/0.geojson'' example_files)) ''out/0.geojson''"
    unfolding Let_def point by (simp add: empty_stream_def path_exists_def)
  moreover
  from write_vector_window_stale_and_empty[where
      in_data = "[\<lparr>feat_properties = 7, feat_geometry = Polygon 1\<rparr>]" and E = example_engine
      and fiona_write = example_fiona_write and out_schema = example_schema
      and out_tile = inner_tile and out_path = "''out/0.geojson''" and stored = example_files]
  have "left_files (write_vector_window example_engine example_fiona_write
          [\<lparr>feat_properties = 7, feat_geometry = Polygon 1\<rparr>] example_schema inner_tile
          ''out/0.geojson'' example_files) = example_files(''out/0.geojson'' \<mapsto> 1)"
    unfolding Let_def polygon by (simp add: example_fiona_write_def)
  ultimately show ?thesis
    by blast
qed

lemma remove_if_exists_removes:
  "remove_if_exists path stored = Inr (stored(path := None))"
  by (auto simp: remove_if_exists_def path_exists_def os_remove_def split: option.splits)

text \<open>
  C9. For a file destination, when \<open>prepare_paths\<close> has passed and the window write
  raises, whatever files it leaves, \<open>write_vector\<close> removes the file at the tile path and
  then raises the same exception: no file exists at the path after the failed write.
\<close>

theorem write_vector_failure_removes_file:
  assumes "\<not> is_db"
    and "prepare_paths = None"
    and "write_window (stored(path := None)) = (partial, Some e)"
  shows "write_vector is_db db_write prepare_paths write_window path stored
           = (partial(path := None), Some e)
         \<and> \<not> path_exists (fst (write_vector is_db db_write prepare_paths write_window path
                                  stored)) path"
  using assms
  by (simp add: write_vector_def remove_if_exists_removes path_exists_def)

theorem write_vector_failure_removes_file_witness:
  "failing_write_window (example_files(''out/0.geojson'' := None))
     = ((example_files(''out/0.geojson'' := None))(''out/0.geojson'' \<mapsto> 0),
        Some (OtherError ''write failed''))
   \<and> write_vector False None None failing_write_window ''out/0.geojson'' example_files
     = (example_files(''out/0.geojson'' := None), Some (OtherError ''write failed''))"
proof -
  have c: "failing_write_window (example_files(''out/0.geojson'' := None))
             = ((example_files(''out/0.geojson'' := None))(''out/0.geojson'' \<mapsto> 0),
                Some (OtherError ''write failed''))"
    by (simp add: failing_write_window_def)
  from write_vector_failure_removes_file[where is_db = False and prepare_paths = None
      and db_write = None and write_window = failing_write_window
      and path = "''out/0.geojson''" and stored = example_files
      and partial = "(example_files(''out/0.geojson'' := None))(''out/0.geojson'' \<mapsto> 0)"
      and e = "OtherError ''write failed''"] c
  show ?thesis
    by simp
qed

end
